theory Spec2Isabelle
  imports Main
begin

section \<open>Values of the host runtime\<close>

text \<open>
  The methods of \<^verbatim>\<open>logger.cc\<close> receive their arguments as host values
  (\<^verbatim>\<open>info[i]\<close>) and either set a return value or throw a host error with a
  message. A number carries the integer that \<^verbatim>\<open>Nan::To<int64_t>\<close> yields
  for it; an object is identified by the number of its wrapper.
\<close>

datatype js_value =
    JSUndefined
  | JSBool bool
  | JSNumber int
  | JSString string
  | JSObject nat

text \<open>
  \<open>JSError m\<close> is \<^verbatim>\<open>Nan::ThrowError(Nan::Error(m))\<close>; \<open>Abort\<close> is the
  failed \<^verbatim>\<open>ToLocalChecked()\<close> on an empty handle.
\<close>

datatype error = JSError string | Abort

text \<open>\<^verbatim>\<open>info[i]\<close>: reading past the supplied arguments yields undefined.\<close>

definition arg :: "js_value list \<Rightarrow> nat \<Rightarrow> js_value" where
  "arg args i = (if i < length args then args ! i else JSUndefined)"

fun IsString :: "js_value \<Rightarrow> bool" where
  "IsString (JSString _) = True"
| "IsString _ = False"

fun IsNumber :: "js_value \<Rightarrow> bool" where
  "IsNumber (JSNumber _) = True"
| "IsNumber _ = False"

text \<open>\<^verbatim>\<open>static_cast<size_t>\<close> of an \<^verbatim>\<open>int64_t\<close>: reduction modulo \<open>2^64\<close>.\<close>

definition size_t_of :: "int \<Rightarrow> nat" where
  "size_t_of n = nat (n mod 2 ^ 64)"

section \<open>The logging library behind the binding\<close>

text \<open>
  \<^verbatim>\<open>logger.cc\<close> is a binding over a logging library (namespace
  \<^verbatim>\<open>spdlog\<close>) whose code is not part of the sources. What the binding calls is
  modelled in this section from the spec; each definition says which part of the
  spec it follows. File operations always succeed in this model.
\<close>

subsection \<open>Levels\<close>

text \<open>
  Modelled from the spec: the enumeration \<^verbatim>\<open>spdlog::level::level_enum\<close> is
  declared in the library's headers. The spec's severity scale is trace, debug,
  info, warn, error, critical, off, in this order, numbered from zero;
  \<^verbatim>\<open>n_levels\<close> is the enumerator that follows \<^verbatim>\<open>off\<close>, the number of
  levels.
\<close>

definition trace :: int where "trace = 0"
definition debug :: int where "debug = 1"
definition info :: int where "info = 2"
definition warn :: int where "warn = 3"
definition err :: int where "err = 4"
definition critical :: int where "critical = 5"
definition off :: int where "off = 6"
definition n_levels :: int where "n_levels = 7"

subsection \<open>Rotating file sink\<close>

text \<open>
  Modelled from the spec: the files of a rotating sink, which the spec numbers by
  index ("index 0 = the base path itself", a numeric suffix for the others).
  \<open>None\<close> is a file that does not exist, \<open>Some c\<close> one with the contents \<open>c\<close>.
\<close>

type_synonym files = "nat \<Rightarrow> string option"

text \<open>
  Modelled from the spec: the attributes of the rotating file sink ("target file
  path template, maximum file size in bytes, maximum file index N, ..., current
  file size counter").
\<close>

record rotating_file_sink =
  base_filename :: string
  max_size :: nat
  max_files :: nat
  current_size :: nat

text \<open>
  Modelled from the spec: "rename file at index-1 to index (deleting the file
  previously at maxFiles-1 if present)". Renaming replaces the target; a source
  that does not exist is skipped.
\<close>

definition rename_file :: "nat \<Rightarrow> nat \<Rightarrow> files \<Rightarrow> files" where
  "rename_file src target fs =
     (case fs src of
        None \<Rightarrow> fs
      | Some c \<Rightarrow> fs(target := Some c, src := None))"

text \<open>
  Modelled from the spec: the loop "for index = k down to 1, rename file at
  index-1 to index".
\<close>

fun rename_down :: "nat \<Rightarrow> files \<Rightarrow> files" where
  "rename_down 0 fs = fs"
| "rename_down (Suc i) fs = rename_down i (rename_file i (Suc i) fs)"

text \<open>
  Modelled from the spec: "perform rotation: close current file; for index =
  maxFiles-1 down to 1, rename ...; reopen the base path as index 0 truncated
  empty; reset currentSize to 0". The loop does not run when \<open>maxFiles\<close> is 0 or 1.
\<close>

definition rotate_files :: "rotating_file_sink \<times> files \<Rightarrow> rotating_file_sink \<times> files" where
  "rotate_files = (\<lambda>(sk, fs).
     (sk\<lparr>current_size := 0\<rparr>,
      (if max_files sk = 0 then fs else rename_down (max_files sk - 1) fs)(0 := Some [])))"

text \<open>
  Modelled from the spec: "Then write the record and add writeLength to
  currentSize". The text is appended to the open base file.
\<close>

definition write_file :: "string \<Rightarrow> rotating_file_sink \<times> files \<Rightarrow> rotating_file_sink \<times> files" where
  "write_file txt = (\<lambda>(sk, fs).
     (sk\<lparr>current_size := current_size sk + length txt\<rparr>,
      fs(0 := Some ((case fs 0 of None \<Rightarrow> [] | Some c \<Rightarrow> c) @ txt))))"

text \<open>
  Modelled from the spec: one write of a formatted record \<open>txt\<close> (its newline
  included). "If currentSize + writeLength > maxSize, perform rotation ... Then
  write the record".
\<close>

definition sink_it :: "string \<Rightarrow> rotating_file_sink \<times> files \<Rightarrow> rotating_file_sink \<times> files" where
  "sink_it txt = (\<lambda>(sk, fs).
     write_file txt
       (if current_size sk + length txt > max_size sk then rotate_files (sk, fs) else (sk, fs)))"

text \<open>A sequence of writes, first to last.\<close>

fun sink_all :: "string list \<Rightarrow> rotating_file_sink \<times> files \<Rightarrow> rotating_file_sink \<times> files" where
  "sink_all [] st = st"
| "sink_all (txt # txts) st = sink_all txts (sink_it txt st)"

text \<open>
  Modelled from the spec: construction of the sink, "open (or create) the base
  file". The size counter starts at the size of the file that was opened.
\<close>

definition open_sink :: "string \<Rightarrow> nat \<Rightarrow> nat \<Rightarrow> files \<Rightarrow> rotating_file_sink \<times> files" where
  "open_sink path S N fs =
     (\<lparr>base_filename = path, max_size = S, max_files = N,
       current_size = (case fs 0 of None \<Rightarrow> 0 | Some c \<Rightarrow> length c)\<rparr>,
      (case fs 0 of None \<Rightarrow> fs(0 := Some []) | Some c \<Rightarrow> fs))"

subsection \<open>Loggers\<close>

text \<open>
  Modelled from the spec: the two ways a logger forwards a record, "directly to
  every owned sink (synchronous logger) or to the Async Dispatch Queue (async
  logger) -- this choice is fixed at construction". In the library's interface the
  choice is the factory that a creation function is instantiated with.
\<close>

datatype factory = synchronous_factory | async_factory

text \<open>
  Modelled from the spec: a formatter is a pattern or the void formatter that
  \<^verbatim>\<open>logger.h\<close> declares.
\<close>

datatype formatter = pattern_formatter string | VoidFormatter

text \<open>Modelled from the spec: the closed set of sink kinds, console and rotating file.\<close>

datatype sink = stdout_sink | rotating_sink rotating_file_sink

text \<open>
  Modelled from the spec: a logger has a unique name, a level threshold, its sink
  and formatter, and, when asynchronous, a queue of pending records (level and
  message). \<open>level_override\<close> is the logger's own level; as long as it has none
  the logger consults the process-wide default ("process-wide defaults consulted
  by loggers that have not been individually overridden"). \<open>flushes\<close> counts how
  often the sink has been flushed.
\<close>

record spd_logger =
  logger_name :: string
  level_override :: "int option"
  made_by :: factory
  sink_of :: sink
  formatter_of :: formatter
  queue :: "(int \<times> string) list"
  flushes :: nat

subsection \<open>The process state\<close>

text \<open>
  \<open>loggers\<close> is the store of logger objects, addressed by the shared pointers
  that the registry and the wrappers hold; a pointer that is not null always
  refers to an object. \<open>registry\<close> is the library's mapping from names to
  loggers, \<open>global_level\<close> and \<open>global_flush_level\<close> are its process-wide
  defaults. \<open>disk\<close> gives the files of each base path, \<open>console\<close> the lines
  written to standard output. \<open>logger_field\<close> is the field \<^verbatim>\<open>logger_\<close> of
  each wrapper object of the binding (\<open>None\<close> is \<^verbatim>\<open>NULL\<close>), and
  \<open>next_wrapper\<close> the next wrapper object to be created.
\<close>

record state =
  loggers :: "nat \<Rightarrow> spd_logger"
  next_logger :: nat
  registry :: "string \<Rightarrow> nat option"
  global_level :: int
  global_flush_level :: int
  disk :: "string \<Rightarrow> files"
  console :: "string list"
  logger_field :: "nat \<Rightarrow> nat option"
  next_wrapper :: nat

subsection \<open>Registry\<close>

text \<open>Modelled from the spec: \<^verbatim>\<open>spdlog::get\<close>, the registry lookup "get(name) -> Logger | NotFound".\<close>

definition spdlog_get :: "string \<Rightarrow> state \<Rightarrow> nat option" where
  "spdlog_get name s = registry s name"

text \<open>
  Modelled from the spec: the registration that the library's creation functions
  perform. The registry "enforces name uniqueness": registering under a name that
  is taken fails with an exception, whose message is the result \<open>Inl\<close>.
\<close>

definition register_logger :: "spd_logger \<Rightarrow> state \<Rightarrow> (string + nat) \<times> state" where
  "register_logger lg s =
     (if registry s (logger_name lg) \<noteq> None
      then (Inl (''logger with name '' @ logger_name lg @ '' already exists''), s)
      else (Inr (next_logger s),
            s\<lparr>loggers := (loggers s)(next_logger s := lg),
              next_logger := Suc (next_logger s),
              registry := (registry s)(logger_name lg := Some (next_logger s))\<rparr>))"

text \<open>
  Modelled from the spec: a logger as its construction leaves it, with no level of
  its own, the library's default pattern and an empty queue.
\<close>

definition new_logger :: "factory \<Rightarrow> string \<Rightarrow> sink \<Rightarrow> spd_logger" where
  "new_logger fac name snk =
     \<lparr>logger_name = name, level_override = None, made_by = fac, sink_of = snk,
      formatter_of = pattern_formatter ''%+'', queue = [], flushes = 0\<rparr>"

text \<open>
  Modelled from the spec: \<^verbatim>\<open>spdlog::rotating_logger_st\<close>, instantiated with a
  factory. It opens the rotating sink on the file, then constructs and registers
  the logger.
\<close>

definition rotating_logger_st ::
  "factory \<Rightarrow> string \<Rightarrow> string \<Rightarrow> nat \<Rightarrow> nat \<Rightarrow> state \<Rightarrow> (string + nat) \<times> state" where
  "rotating_logger_st fac logName fileName S N s =
     (case open_sink fileName S N (disk s fileName) of
        (sk, fs) \<Rightarrow>
          register_logger (new_logger fac logName (rotating_sink sk))
            (s\<lparr>disk := (disk s)(fileName := fs)\<rparr>))"

text \<open>
  Modelled from the spec: \<^verbatim>\<open>spdlog::stdout_logger_st\<close>, instantiated with a
  factory. It constructs and registers a logger with a console sink.
\<close>

definition stdout_logger_st :: "factory \<Rightarrow> string \<Rightarrow> state \<Rightarrow> (string + nat) \<times> state" where
  "stdout_logger_st fac name s = register_logger (new_logger fac name stdout_sink) s"

text \<open>
  Modelled from the spec: \<^verbatim>\<open>spdlog::drop\<close>, "drop(name) -- removes ... the
  named Logger; no-op if absent". The object lives on for the pointers that still
  refer to it.
\<close>

definition spdlog_drop :: "string \<Rightarrow> state \<Rightarrow> state" where
  "spdlog_drop name s = s\<lparr>registry := (registry s)(name := None)\<rparr>"

text \<open>
  Modelled from the spec: \<^verbatim>\<open>spdlog::set_level\<close> and \<^verbatim>\<open>spdlog::flush_on\<close>,
  "setGlobalLevel(Level), setGlobalFlushOn(Level) -- set process-wide defaults".
\<close>

definition spdlog_set_level :: "int \<Rightarrow> state \<Rightarrow> state" where
  "spdlog_set_level l s = s\<lparr>global_level := l\<rparr>"

definition spdlog_flush_on :: "int \<Rightarrow> state \<Rightarrow> state" where
  "spdlog_flush_on l s = s\<lparr>global_flush_level := l\<rparr>"

subsection \<open>Methods of a logger\<close>

text \<open>
  Modelled from the spec: \<^verbatim>\<open>level()\<close> of the logger that the pointer \<open>p\<close>
  refers to: its own level, or the process-wide default while it has none.
\<close>

definition level :: "state \<Rightarrow> nat \<Rightarrow> int" where
  "level s p = (case level_override (loggers s p) of None \<Rightarrow> global_level s | Some l \<Rightarrow> l)"

text \<open>Modelled from the spec: \<^verbatim>\<open>set_level\<close> gives the logger a level of its own.\<close>

definition set_level :: "int \<Rightarrow> nat \<Rightarrow> state \<Rightarrow> state" where
  "set_level l p s = s\<lparr>loggers := (loggers s)(p := (loggers s p)\<lparr>level_override := Some l\<rparr>)\<rparr>"

text \<open>
  Modelled from the spec: \<^verbatim>\<open>set_formatter\<close> and \<^verbatim>\<open>set_pattern\<close> replace
  the formatter of the logger's sink.
\<close>

definition set_formatter :: "formatter \<Rightarrow> nat \<Rightarrow> state \<Rightarrow> state" where
  "set_formatter f p s = s\<lparr>loggers := (loggers s)(p := (loggers s p)\<lparr>formatter_of := f\<rparr>)\<rparr>"

definition set_pattern :: "string \<Rightarrow> nat \<Rightarrow> state \<Rightarrow> state" where
  "set_pattern pat p s = set_formatter (pattern_formatter pat) p s"

text \<open>
  The text a formatter produces for a record is fixed neither by the sources nor
  by the spec (the pattern language is the library's, \<^verbatim>\<open>VoidFormatter\<close> is
  declared in \<^verbatim>\<open>logger.h\<close>): it is the parameter \<open>fmt\<close> of everything that
  formats, applied to the formatter, the logger's name, the level and the message.
\<close>

type_synonym format_fn = "formatter \<Rightarrow> string \<Rightarrow> int \<Rightarrow> string \<Rightarrow> string"

text \<open>
  Modelled from the spec: handing one record to the sink of logger \<open>p\<close>, which
  "formats and writes": a line on the console, or a write of the rotating sink to
  the files of its base path.
\<close>

definition to_sink :: "format_fn \<Rightarrow> int \<Rightarrow> string \<Rightarrow> nat \<Rightarrow> state \<Rightarrow> state" where
  "to_sink fmt lvl msg p s =
     (let lg = loggers s p; txt = fmt (formatter_of lg) (logger_name lg) lvl msg in
      case sink_of lg of
        stdout_sink \<Rightarrow> s\<lparr>console := console s @ [txt]\<rparr>
      | rotating_sink sk \<Rightarrow>
          (case sink_it txt (sk, disk s (base_filename sk)) of
             (sk', fs') \<Rightarrow>
               s\<lparr>loggers := (loggers s)(p := lg\<lparr>sink_of := rotating_sink sk'\<rparr>),
                 disk := (disk s)(base_filename sk := fs')\<rparr>))"

text \<open>Modelled from the spec: flushing the sink of logger \<open>p\<close>; the flush is counted.\<close>

definition flush_sink :: "nat \<Rightarrow> state \<Rightarrow> state" where
  "flush_sink p s =
     s\<lparr>loggers := (loggers s)(p := (loggers s p)\<lparr>flushes := Suc (flushes (loggers s p))\<rparr>)\<rparr>"

text \<open>Modelled from the spec: putting a record at the end of the queue of logger \<open>p\<close>.\<close>

definition enqueue :: "int \<times> string \<Rightarrow> nat \<Rightarrow> state \<Rightarrow> state" where
  "enqueue m p s =
     s\<lparr>loggers := (loggers s)(p := (loggers s p)\<lparr>queue := queue (loggers s p) @ [m]\<rparr>)\<rparr>"

text \<open>
  Modelled from the spec: the emit operation of a logger at level \<open>lvl\<close>. It is a
  "no-op if level < logger.level"; a synchronous logger forwards the record to its
  sink, and "messages at or above this [flush] level trigger an immediate flush";
  an asynchronous logger forwards it to its queue.
\<close>

definition log :: "format_fn \<Rightarrow> int \<Rightarrow> string \<Rightarrow> nat \<Rightarrow> state \<Rightarrow> state" where
  "log fmt lvl msg p s =
     (if lvl < level s p then s
      else case made_by (loggers s p) of
        async_factory \<Rightarrow> enqueue (lvl, msg) p s
      | synchronous_factory \<Rightarrow>
          (let s1 = to_sink fmt lvl msg p s in
           if global_flush_level s \<le> lvl then flush_sink p s1 else s1))"

text \<open>
  Modelled from the spec: the background worker of an asynchronous logger, which
  "dequeues in FIFO order and calls the underlying sink chain's log".
  \<open>worker_step\<close> takes one record off the queue, \<open>drain\<close> hands a list of
  records to the sink in order.
\<close>

definition worker_step :: "format_fn \<Rightarrow> nat \<Rightarrow> state \<Rightarrow> state" where
  "worker_step fmt p s =
     (case queue (loggers s p) of
        [] \<Rightarrow> s
      | (lvl, msg) # ms \<Rightarrow>
          to_sink fmt lvl msg p (s\<lparr>loggers := (loggers s)(p := (loggers s p)\<lparr>queue := ms\<rparr>)\<rparr>))"

fun drain :: "format_fn \<Rightarrow> (int \<times> string) list \<Rightarrow> nat \<Rightarrow> state \<Rightarrow> state" where
  "drain fmt [] p s = s"
| "drain fmt ((lvl, msg) # ms) p s = drain fmt ms p (to_sink fmt lvl msg p s)"

text \<open>
  Modelled from the spec: \<^verbatim>\<open>flush()\<close> of a logger "flushes every owned sink
  synchronously; for an async logger this must first drain the queue up to the
  point of the call".
\<close>

definition flush :: "format_fn \<Rightarrow> nat \<Rightarrow> state \<Rightarrow> state" where
  "flush fmt p s =
     (case made_by (loggers s p) of
        async_factory \<Rightarrow>
          flush_sink p
            (drain fmt (queue (loggers s p)) p
               (s\<lparr>loggers := (loggers s)(p := (loggers s p)\<lparr>queue := []\<rparr>)\<rparr>))
      | synchronous_factory \<Rightarrow> flush_sink p s)"

section \<open>The binding: \<^verbatim>\<open>logger.cc\<close>\<close>

type_synonym outcome = "(error + js_value) \<times> state"

subsection \<open>Process-wide functions\<close>

definition setLevel :: "state \<Rightarrow> js_value list \<Rightarrow> outcome" where
  "setLevel s args =
     (case arg args 0 of
        JSNumber levelNumber \<Rightarrow>
          if levelNumber \<ge> n_levels \<or> levelNumber < trace
          then (Inl (JSError ''Invalid level''), s)
          else (Inr JSUndefined, spdlog_set_level levelNumber s)
      | _ \<Rightarrow> (Inl (JSError ''Provide level''), s))"

definition setFlushOn :: "state \<Rightarrow> js_value list \<Rightarrow> outcome" where
  "setFlushOn s args =
     (case arg args 0 of
        JSNumber levelNumber \<Rightarrow>
          if levelNumber \<ge> n_levels \<or> levelNumber < trace
          then (Inl (JSError ''Invalid level''), s)
          else (Inr JSUndefined, spdlog_flush_on levelNumber s)
      | _ \<Rightarrow> (Inl (JSError ''Provide flush level''), s))"

subsection \<open>Construction and destruction\<close>

text \<open>
  \<^verbatim>\<open>new Logger(logger); obj->Wrap(info.This())\<close>: the fresh wrapper object of
  the construct call holds the pointer and is the return value.
\<close>

definition wrap :: "nat \<Rightarrow> state \<Rightarrow> outcome" where
  "wrap p s =
     (Inr (JSObject (next_wrapper s)),
      s\<lparr>logger_field := (logger_field s)(next_wrapper s := Some p),
        next_wrapper := Suc (next_wrapper s)\<rparr>)"

text \<open>
  An exception of the library is caught and rethrown as a host error with its
  message; the state is the one the library left.
\<close>

definition wrap_result :: "(string + nat) \<times> state \<Rightarrow> outcome" where
  "wrap_result r =
     (case r of
        (Inl what, s') \<Rightarrow> (Inl (JSError what), s')
      | (Inr p, s') \<Rightarrow> wrap p s')"

text \<open>
  The body of \<^verbatim>\<open>Logger::New\<close> for a construct call, with the branch of the
  preprocessor for platforms other than Windows.
\<close>

definition construct :: "state \<Rightarrow> js_value list \<Rightarrow> outcome" where
  "construct s args =
     (case arg args 0 of
        JSString name \<Rightarrow>
          if name = ''rotating'' \<or> name = ''rotating_async'' then
            (case (arg args 1, arg args 2) of
               (JSString logName, JSString fileName) \<Rightarrow>
                 (case (arg args 3, arg args 4) of
                    (JSNumber maxSize, JSNumber maxFiles) \<Rightarrow>
                      (case spdlog_get logName s of
                         Some logger \<Rightarrow> wrap logger s
                       | None \<Rightarrow>
                           if logName = ''rotating_async''
                           then wrap_result
                                  (rotating_logger_st async_factory logName fileName
                                     (size_t_of maxSize) (size_t_of maxFiles) s)
                           else wrap_result
                                  (rotating_logger_st synchronous_factory logName fileName
                                     (size_t_of maxSize) (size_t_of maxFiles) s))
                  | _ \<Rightarrow> (Inl (JSError ''Provide the max size and max files''), s))
             | _ \<Rightarrow> (Inl (JSError ''Provide the log name and file name''), s))
          else wrap_result (stdout_logger_st async_factory name s)
      | _ \<Rightarrow> (Inl (JSError ''Provide a logger name''), s))"

text \<open>
  \<^verbatim>\<open>Logger::New\<close>. Called without \<^verbatim>\<open>new\<close>, it constructs an instance from
  the first argument alone; \<^verbatim>\<open>ToLocalChecked()\<close> aborts when that construction
  has thrown.
\<close>

definition New :: "state \<Rightarrow> bool \<Rightarrow> js_value list \<Rightarrow> outcome" where
  "New s IsConstructCall args =
     (if IsConstructCall then construct s args
      else case construct s [arg args 0] of
             (Inl e, s') \<Rightarrow> (Inl Abort, s')
           | (Inr v, s') \<Rightarrow> (Inr v, s'))"

text \<open>\<^verbatim>\<open>Logger::~Logger\<close>, run when the wrapper \<open>this\<close> is collected.\<close>

definition destroy :: "state \<Rightarrow> nat \<Rightarrow> state" where
  "destroy s this =
     (case logger_field s this of
        None \<Rightarrow> s
      | Some p \<Rightarrow> (spdlog_drop (logger_name (loggers s p)) s)\<lparr>logger_field := (logger_field s)(this := None)\<rparr>)"

subsection \<open>Methods of a wrapper\<close>

text \<open>
  Each method takes the wrapper it is called on (\<^verbatim>\<open>info.This()\<close>) and its
  arguments. The methods that make the library format a record take the parameter
  \<open>fmt\<close> as well. The six emit methods have the same body up to the level that
  they log at; \<open>emit\<close> is that body.
\<close>

definition emit :: "int \<Rightarrow> format_fn \<Rightarrow> state \<Rightarrow> nat \<Rightarrow> js_value list \<Rightarrow> outcome" where
  "emit lvl fmt s this args =
     (case arg args 0 of
        JSString message \<Rightarrow>
          (case logger_field s this of
             Some p \<Rightarrow> (Inr (JSObject this), log fmt lvl message p s)
           | None \<Rightarrow> (Inr (JSObject this), s))
      | _ \<Rightarrow> (Inl (JSError ''Provide a message to log''), s))"

definition Critical :: "format_fn \<Rightarrow> state \<Rightarrow> nat \<Rightarrow> js_value list \<Rightarrow> outcome" where
  "Critical = emit critical"

definition Error :: "format_fn \<Rightarrow> state \<Rightarrow> nat \<Rightarrow> js_value list \<Rightarrow> outcome" where
  "Error = emit err"

definition Warn :: "format_fn \<Rightarrow> state \<Rightarrow> nat \<Rightarrow> js_value list \<Rightarrow> outcome" where
  "Warn = emit warn"

definition Info :: "format_fn \<Rightarrow> state \<Rightarrow> nat \<Rightarrow> js_value list \<Rightarrow> outcome" where
  "Info = emit info"

definition Debug :: "format_fn \<Rightarrow> state \<Rightarrow> nat \<Rightarrow> js_value list \<Rightarrow> outcome" where
  "Debug = emit debug"

definition Trace :: "format_fn \<Rightarrow> state \<Rightarrow> nat \<Rightarrow> js_value list \<Rightarrow> outcome" where
  "Trace = emit trace"

definition GetLevel :: "state \<Rightarrow> nat \<Rightarrow> js_value list \<Rightarrow> outcome" where
  "GetLevel s this args =
     (case logger_field s this of
        Some p \<Rightarrow> (Inr (JSNumber (level s p)), s)
      | None \<Rightarrow> (Inr JSUndefined, s))"

definition SetLevel :: "state \<Rightarrow> nat \<Rightarrow> js_value list \<Rightarrow> outcome" where
  "SetLevel s this args =
     (case arg args 0 of
        JSNumber levelNumber \<Rightarrow>
          (case logger_field s this of
             Some p \<Rightarrow>
               if levelNumber \<ge> n_levels \<or> levelNumber < trace
               then (Inl (JSError ''Invalid level''), s)
               else (Inr (JSObject this), set_level levelNumber p s)
           | None \<Rightarrow> (Inr (JSObject this), s))
      | _ \<Rightarrow> (Inl (JSError ''Provide level''), s))"

definition Flush :: "format_fn \<Rightarrow> state \<Rightarrow> nat \<Rightarrow> js_value list \<Rightarrow> outcome" where
  "Flush fmt s this args =
     (case logger_field s this of
        Some p \<Rightarrow> (Inr (JSObject this), flush fmt p s)
      | None \<Rightarrow> (Inr (JSObject this), s))"

definition Drop :: "state \<Rightarrow> nat \<Rightarrow> js_value list \<Rightarrow> outcome" where
  "Drop s this args =
     (case logger_field s this of
        Some p \<Rightarrow>
          (Inr (JSObject this),
           spdlog_drop (logger_name (loggers s p)) (s\<lparr>logger_field := (logger_field s)(this := None)\<rparr>))
      | None \<Rightarrow> (Inr (JSObject this), s))"

definition SetPattern :: "state \<Rightarrow> nat \<Rightarrow> js_value list \<Rightarrow> outcome" where
  "SetPattern s this args =
     (case arg args 0 of
        JSString pattern \<Rightarrow>
          (case logger_field s this of
             Some p \<Rightarrow> (Inr (JSObject this), set_pattern pattern p s)
           | None \<Rightarrow> (Inr (JSObject this), s))
      | _ \<Rightarrow> (Inl (JSError ''Provide pattern''), s))"

text \<open>
  \<^verbatim>\<open>Logger::ClearFormatters\<close> converts its first argument to a string without
  testing or using it.
\<close>

definition ClearFormatters :: "state \<Rightarrow> nat \<Rightarrow> js_value list \<Rightarrow> outcome" where
  "ClearFormatters s this args =
     (case logger_field s this of
        Some p \<Rightarrow> (Inr (JSObject this), set_formatter VoidFormatter p s)
      | None \<Rightarrow> (Inr (JSObject this), s))"

section \<open>Example processes\<close>

text \<open>
  A process that has not created any logger yet, with the level info and no flush
  level (off) as its defaults, and the states a few calls lead to. They serve as
  concrete inputs below.
\<close>

definition no_logger :: spd_logger where
  "no_logger = new_logger synchronous_factory [] stdout_sink"

definition init_state :: state where
  "init_state =
     \<lparr>loggers = (\<lambda>_. no_logger), next_logger = 0, registry = (\<lambda>_. None),
      global_level = info, global_flush_level = off,
      disk = (\<lambda>_ _. None), console = [],
      logger_field = (\<lambda>_. None), next_wrapper = 0\<rparr>"

text \<open>A formatter function that prints the message alone.\<close>

definition msg_only :: format_fn where
  "msg_only f n l m = m"

text \<open>One console logger named app; its wrapper is object 0.\<close>

definition app_state :: state where
  "app_state = snd (New init_state True [JSString ''app''])"

text \<open>Kind rotating_async, log name app.\<close>

definition async_kind_state :: state where
  "async_kind_state =
     snd (New init_state True
       [JSString ''rotating_async'', JSString ''app'', JSString ''/tmp/app.log'',
        JSNumber 1024, JSNumber 3])"

text \<open>Kind rotating, log name rotating_async.\<close>

definition async_name_state :: state where
  "async_name_state =
     snd (New init_state True
       [JSString ''rotating'', JSString ''rotating_async'', JSString ''/tmp/app.log'',
        JSNumber 1024, JSNumber 3])"

text \<open>A rotating logger named app, and a second creation under the same name.\<close>

definition rotating_state :: state where
  "rotating_state =
     snd (New init_state True
       [JSString ''rotating'', JSString ''app'', JSString ''/tmp/app.log'',
        JSNumber 1024, JSNumber 3])"

definition reused_state :: state where
  "reused_state =
     snd (New rotating_state True
       [JSString ''rotating_async'', JSString ''app'', JSString ''/tmp/other.log'',
        JSNumber 10, JSNumber 1])"

text \<open>Rotating loggers with a limit of 8 bytes, keeping two files and none.\<close>

definition tiny_state :: state where
  "tiny_state =
     snd (New init_state True
       [JSString ''rotating'', JSString ''app'', JSString ''/tmp/app.log'',
        JSNumber 8, JSNumber 2])"

definition no_files_state :: state where
  "no_files_state =
     snd (New init_state True
       [JSString ''rotating'', JSString ''app'', JSString ''/tmp/app.log'',
        JSNumber 8, JSNumber 0])"

text \<open>The sink of such a logger on a path without files.\<close>

definition small_sink :: "rotating_file_sink \<times> files" where
  "small_sink = open_sink ''/tmp/app.log'' 8 2 (\<lambda>_. None)"

section \<open>Basic facts\<close>

lemmas level_defs =
  trace_def debug_def info_def warn_def err_def critical_def off_def n_levels_def

lemmas emit_defs = Critical_def Error_def Warn_def Info_def Debug_def Trace_def

lemma arg_simps [simp]:
  "arg (x # xs) 0 = x"
  "arg (x # xs) (Suc i) = arg xs i"
  "arg [] i = JSUndefined"
  by (simp_all add: arg_def)

lemma arg_numeral [simp]: "arg (x # xs) (numeral k) = arg xs (pred_numeral k)"
  by (simp add: arg_def numeral_eq_Suc)

lemma size_t_of_small [simp]:
  "size_t_of 0 = 0" "size_t_of 2 = 2" "size_t_of 3 = 3" "size_t_of 8 = 8"
  "size_t_of 1024 = 1024"
  by (simp_all add: size_t_of_def)

lemma level_set_level: "level (set_level l p s) p = l"
  by (simp add: level_def set_level_def)

lemma init_simps:
  "registry init_state n = None" "next_wrapper init_state = 0" "next_logger init_state = 0"
  "disk init_state f = (\<lambda>_. None)"
  by (simp_all add: init_state_def)

subsection \<open>Methods on a wrapper without a logger\<close>

lemma Drop_clears: "logger_field (snd (Drop s this args)) this = None"
  by (simp add: Drop_def spdlog_drop_def split: option.splits)

lemma emit_not_string:
  "\<not> IsString (arg args 0) \<Longrightarrow>
   emit lvl fmt s this args = (Inl (JSError ''Provide a message to log''), s)"
  by (cases "arg args 0") (simp_all add: emit_def)

lemma emit_string:
  "IsString (arg args 0) \<Longrightarrow> fst (emit lvl fmt s this args) = Inr (JSObject this)"
  by (cases "arg args 0") (simp_all add: emit_def split: option.splits)

lemma emit_dropped:
  "logger_field s this = None \<Longrightarrow> IsString (arg args 0) \<Longrightarrow>
   emit lvl fmt s this args = (Inr (JSObject this), s)"
  by (cases "arg args 0") (simp_all add: emit_def)

subsection \<open>Construction\<close>

lemma construct_console:
  assumes "name \<noteq> ''rotating''" and "name \<noteq> ''rotating_async''"
  shows "New s True (JSString name # rest) =
         wrap_result (register_logger (new_logger async_factory name stdout_sink) s)"
  using assms by (simp add: New_def construct_def stdout_logger_st_def)

lemma construct_console_registered:
  assumes "name \<noteq> ''rotating''" and "name \<noteq> ''rotating_async''"
    and "registry s name \<noteq> None"
  shows "New s True (JSString name # rest) =
         (Inl (JSError (''logger with name '' @ name @ '' already exists'')), s)"
  using assms
  by (simp add: construct_console register_logger_def wrap_result_def new_logger_def)

lemma construct_console_fresh:
  assumes "name \<noteq> ''rotating''" and "name \<noteq> ''rotating_async''"
    and "registry s name = None"
  shows "New s True (JSString name # rest) =
         (Inr (JSObject (next_wrapper s)),
          s\<lparr>loggers := (loggers s)(next_logger s := new_logger async_factory name stdout_sink),
            next_logger := Suc (next_logger s),
            registry := (registry s)(name := Some (next_logger s)),
            logger_field := (logger_field s)(next_wrapper s := Some (next_logger s)),
            next_wrapper := Suc (next_wrapper s)\<rparr>)"
  using assms
  by (simp add: construct_console register_logger_def wrap_result_def wrap_def new_logger_def)

lemma construct_rotating:
  assumes "kind = ''rotating'' \<or> kind = ''rotating_async''"
  shows "New s True
           [JSString kind, JSString logName, JSString fileName, JSNumber maxSize, JSNumber maxFiles] =
         (case spdlog_get logName s of
            Some p \<Rightarrow> wrap p s
          | None \<Rightarrow>
              wrap_result
                (rotating_logger_st
                   (if logName = ''rotating_async'' then async_factory else synchronous_factory)
                   logName fileName (size_t_of maxSize) (size_t_of maxFiles) s))"
  using assms by (auto simp: New_def construct_def split: option.splits)

lemma rotating_logger_st_fresh:
  assumes "registry s logName = None"
  shows "rotating_logger_st fac logName fileName S N s =
         (Inr (next_logger s),
          s\<lparr>disk := (disk s)(fileName := snd (open_sink fileName S N (disk s fileName))),
            loggers := (loggers s)(next_logger s :=
               new_logger fac logName
                 (rotating_sink (fst (open_sink fileName S N (disk s fileName))))),
            next_logger := Suc (next_logger s),
            registry := (registry s)(logName := Some (next_logger s))\<rparr>)"
  using assms
  by (simp add: rotating_logger_st_def register_logger_def new_logger_def split: prod.splits)

text \<open>
  A rotating logger that is not yet registered: the factory is chosen by the log
  name, and the sink gets the two numbers converted to \<^verbatim>\<open>size_t\<close>.
\<close>

lemma construct_rotating_fresh:
  assumes "kind = ''rotating'' \<or> kind = ''rotating_async''" and "registry s logName = None"
  shows "New s True
           [JSString kind, JSString logName, JSString fileName, JSNumber maxSize, JSNumber maxFiles] =
         (Inr (JSObject (next_wrapper s)),
          s\<lparr>disk := (disk s)(fileName :=
               snd (open_sink fileName (size_t_of maxSize) (size_t_of maxFiles) (disk s fileName))),
            loggers := (loggers s)(next_logger s :=
               new_logger
                 (if logName = ''rotating_async'' then async_factory else synchronous_factory)
                 logName
                 (rotating_sink (fst (open_sink fileName (size_t_of maxSize) (size_t_of maxFiles)
                    (disk s fileName))))),
            next_logger := Suc (next_logger s),
            registry := (registry s)(logName := Some (next_logger s)),
            logger_field := (logger_field s)(next_wrapper s := Some (next_logger s)),
            next_wrapper := Suc (next_wrapper s)\<rparr>)"
  using assms
  by (simp add: construct_rotating spdlog_get_def rotating_logger_st_fresh wrap_result_def wrap_def)

lemma construct_rotating_reuse:
  assumes "kind = ''rotating'' \<or> kind = ''rotating_async''"
    and "registry s logName = Some p"
  shows "New s True
           [JSString kind, JSString logName, JSString fileName, JSNumber maxSize, JSNumber maxFiles] =
         (Inr (JSObject (next_wrapper s)),
          s\<lparr>logger_field := (logger_field s)(next_wrapper s := Some p),
            next_wrapper := Suc (next_wrapper s)\<rparr>)"
  using assms(2) unfolding construct_rotating [OF assms(1)]
  by (simp add: spdlog_get_def wrap_def)

lemma construct_rotating_registered:
  assumes "kind = ''rotating'' \<or> kind = ''rotating_async''"
    and "New s True
           [JSString kind, JSString logName, JSString fileName, JSNumber maxSize, JSNumber maxFiles]
         = (r, s')"
  shows "r = Inr (JSObject (next_wrapper s))"
    and "next_wrapper s' = Suc (next_wrapper s)"
    and "logger_field s' = (logger_field s)(next_wrapper s := registry s' logName)"
    and "registry s' logName \<noteq> None"
  using assms(2) unfolding construct_rotating [OF assms(1)]
  by (auto simp: spdlog_get_def rotating_logger_st_fresh wrap_result_def wrap_def
      split: option.splits)

subsection \<open>The example processes, evaluated\<close>

lemma app_state_eval:
  "fst (New init_state True [JSString ''app'']) = Inr (JSObject 0)"
  "logger_field app_state 0 = Some 0"
  "logger_name (loggers app_state 0) = ''app''"
  "registry app_state ''app'' = Some 0"
  "level app_state 0 = info"
  unfolding app_state_def
  by (simp_all add: construct_console_fresh init_simps new_logger_def level_def init_state_def)

lemma async_kind_state_eval:
  "fst (New init_state True
     [JSString ''rotating_async'', JSString ''app'', JSString ''/tmp/app.log'',
      JSNumber 1024, JSNumber 3]) = Inr (JSObject 0)"
  "logger_field async_kind_state 0 = Some 0"
  "loggers async_kind_state 0 =
     new_logger synchronous_factory ''app''
       (rotating_sink \<lparr>base_filename = ''/tmp/app.log'', max_size = 1024, max_files = 3,
          current_size = 0\<rparr>)"
  "global_level async_kind_state = info" "global_flush_level async_kind_state = off"
  "disk async_kind_state ''/tmp/app.log'' = (\<lambda>_. None)(0 := Some [])"
  unfolding async_kind_state_def
  by (simp_all add: construct_rotating_fresh init_simps open_sink_def init_state_def)

lemma async_name_state_eval:
  "fst (New init_state True
     [JSString ''rotating'', JSString ''rotating_async'', JSString ''/tmp/app.log'',
      JSNumber 1024, JSNumber 3]) = Inr (JSObject 0)"
  "logger_field async_name_state 0 = Some 0"
  "loggers async_name_state 0 =
     new_logger async_factory ''rotating_async''
       (rotating_sink \<lparr>base_filename = ''/tmp/app.log'', max_size = 1024, max_files = 3,
          current_size = 0\<rparr>)"
  "global_level async_name_state = info" "global_flush_level async_name_state = off"
  "disk async_name_state ''/tmp/app.log'' = (\<lambda>_. None)(0 := Some [])"
  unfolding async_name_state_def
  by (simp_all add: construct_rotating_fresh init_simps open_sink_def init_state_def)

lemma rotating_state_eval:
  "fst (New init_state True
       [JSString ''rotating'', JSString ''app'', JSString ''/tmp/app.log'',
        JSNumber 1024, JSNumber 3]) = Inr (JSObject 0)"
  "registry rotating_state ''app'' = Some 0"
  "next_wrapper rotating_state = Suc 0"
  "logger_field rotating_state 0 = Some 0"
  "next_logger rotating_state = Suc 0"
  unfolding rotating_state_def
  by (simp_all add: construct_rotating_fresh init_simps)

lemma reused_state_eval:
  "fst (New rotating_state True
       [JSString ''rotating_async'', JSString ''app'', JSString ''/tmp/other.log'',
        JSNumber 10, JSNumber 1]) = Inr (JSObject 1)"
  "logger_field reused_state 0 = Some 0"
  "logger_field reused_state (Suc 0) = Some 0"
  "next_logger reused_state = Suc 0"
  "disk reused_state = disk rotating_state"
  unfolding reused_state_def
  by (simp_all add: construct_rotating_reuse [where p = 0] rotating_state_eval)

lemma tiny_state_eval:
  "logger_field tiny_state 0 = Some 0"
  "loggers tiny_state 0 =
     new_logger synchronous_factory ''app''
       (rotating_sink \<lparr>base_filename = ''/tmp/app.log'', max_size = 8, max_files = 2,
          current_size = 0\<rparr>)"
  "global_level tiny_state = info" "global_flush_level tiny_state = off"
  "disk tiny_state ''/tmp/app.log'' = (\<lambda>_. None)(0 := Some [])"
  unfolding tiny_state_def
  by (simp_all add: construct_rotating_fresh init_simps open_sink_def init_state_def)

lemma no_files_state_eval:
  "sink_of (loggers no_files_state 0) =
     rotating_sink \<lparr>base_filename = ''/tmp/app.log'', max_size = 8, max_files = 0,
       current_size = 0\<rparr>"
  "disk no_files_state ''/tmp/app.log'' 0 = Some []"
  unfolding no_files_state_def
  by (simp_all add: construct_rotating_fresh init_simps open_sink_def new_logger_def)

lemma small_sink_eval:
  "max_size (fst small_sink) = 8" "max_files (fst small_sink) = 2"
  "current_size (fst small_sink) = 0" "snd small_sink = (\<lambda>_. None)(0 := Some [])"
  by (simp_all add: small_sink_def open_sink_def)

lemma first_write_eval:
  "current_size (fst (sink_it ''abcde'' small_sink)) = 5"
  "snd (sink_it ''abcde'' small_sink) 0 = Some ''abcde''"
  by (simp_all add: small_sink_def open_sink_def sink_it_def write_file_def)

subsection \<open>The rotating file sink\<close>

text \<open>What the renaming loop leaves at each index.\<close>

lemma rename_down_at:
  "rename_down k fs i =
     (if k < i then fs i
      else if i = 0 then (if k = 0 then fs 0 else None)
      else if i < k then fs (i - 1)
      else (case fs (k - 1) of None \<Rightarrow> fs k | Some c \<Rightarrow> Some c))"
proof (induction k arbitrary: fs i)
  case 0
  then show ?case by simp
next
  case (Suc k)
  consider "Suc k < i" | "i = Suc k" | "i = k" "0 < k" | "i = 0" | "0 < i" "i < k"
    by linarith
  then show ?case
  proof cases
    case 1
    then show ?thesis by (simp add: Suc.IH rename_file_def split: option.splits)
  next
    case 2
    then show ?thesis by (simp add: Suc.IH rename_file_def split: option.splits)
  next
    case 3
    then show ?thesis by (auto simp: Suc.IH rename_file_def split: option.splits)
  next
    case 4
    then show ?thesis by (simp add: Suc.IH rename_file_def split: option.splits)
  next
    case 5
    then show ?thesis by (auto simp: Suc.IH rename_file_def split: option.splits)
  qed
qed

lemma sink_it_limits:
  "max_size (fst (sink_it line (sk, fs))) = max_size sk"
  "max_files (fst (sink_it line (sk, fs))) = max_files sk"
  "base_filename (fst (sink_it line (sk, fs))) = base_filename sk"
  by (simp_all add: sink_it_def write_file_def rotate_files_def)

lemma sink_it_size:
  "length line \<le> max_size sk \<Longrightarrow> current_size (fst (sink_it line (sk, fs))) \<le> max_size sk"
  by (simp add: sink_it_def write_file_def rotate_files_def)

lemma sink_it_range:
  assumes "1 \<le> max_files sk" and "\<forall>i\<ge>max_files sk. fs i = None"
  shows "\<forall>i\<ge>max_files sk. snd (sink_it line (sk, fs)) i = None"
  using assms by (auto simp: sink_it_def write_file_def rotate_files_def rename_down_at)

lemma card_files:
  assumes "\<forall>i\<ge>N. (fs :: files) i = None"
  shows "card {i. fs i \<noteq> None} \<le> N"
proof -
  have "{i. fs i \<noteq> None} \<subseteq> {..<N}"
    using assms by (auto simp: not_le [symmetric])
  then have "card {i. fs i \<noteq> None} \<le> card {..<N}"
    by (intro card_mono) simp_all
  then show ?thesis by simp
qed

lemma sink_all_invariant:
  assumes "1 \<le> max_files sk" and "current_size sk \<le> max_size sk"
    and "\<forall>i\<ge>max_files sk. fs i = None"
    and "\<forall>t\<in>set lines. length t \<le> max_size sk"
  shows "max_size (fst (sink_all lines (sk, fs))) = max_size sk \<and>
         max_files (fst (sink_all lines (sk, fs))) = max_files sk \<and>
         current_size (fst (sink_all lines (sk, fs))) \<le> max_size sk \<and>
         (\<forall>i\<ge>max_files sk. snd (sink_all lines (sk, fs)) i = None)"
  using assms
proof (induction lines arbitrary: sk fs)
  case Nil
  then show ?case by simp
next
  case (Cons t lines)
  obtain sk1 fs1 where st: "sink_it t (sk, fs) = (sk1, fs1)"
    by (cases "sink_it t (sk, fs)")
  have lim: "max_size sk1 = max_size sk" "max_files sk1 = max_files sk"
    using sink_it_limits [where sk = sk and line = t and fs = fs] st by simp_all
  have sz: "current_size sk1 \<le> max_size sk1"
    using sink_it_size [where sk = sk and line = t and fs = fs] Cons.prems(4) st lim by simp
  have rg: "\<forall>i\<ge>max_files sk1. fs1 i = None"
    using sink_it_range [OF Cons.prems(1) Cons.prems(3), where line = t] st lim by simp
  have fit: "\<forall>t\<in>set lines. length t \<le> max_size sk1"
    using Cons.prems(4) lim by simp
  have "1 \<le> max_files sk1"
    using Cons.prems(1) lim by simp
  from Cons.IH [OF this sz rg fit] show ?case
    by (simp add: st lim)
qed

lemma sink_it_rotating:
  assumes "max_size sk < current_size sk + length line"
  shows "sink_it line (sk, fs) = write_file line (rotate_files (sk, fs))"
    and "snd (sink_it line (sk, fs)) 0 = Some line"
    and "current_size (fst (sink_it line (sk, fs))) = length line"
    and "0 < i \<Longrightarrow> i < max_files sk \<Longrightarrow> fs (i - 1) \<noteq> None \<Longrightarrow>
           snd (sink_it line (sk, fs)) i = fs (i - 1)"
  using assms by (auto simp: sink_it_def write_file_def rotate_files_def rename_down_at)

lemma sink_it_appending:
  assumes "current_size sk + length line \<le> max_size sk"
  shows "sink_it line (sk, fs) = write_file line (sk, fs)"
    and "snd (sink_it line (sk, fs)) 0 = Some ((case fs 0 of None \<Rightarrow> [] | Some c \<Rightarrow> c) @ line)"
    and "0 < i \<Longrightarrow> snd (sink_it line (sk, fs)) i = fs i"
  using assms by (auto simp: sink_it_def write_file_def)

section \<open>The claims\<close>

subsection \<open>C1: the dispatch path of a rotating logger\<close>

text \<open>
  Claim C1 says that kind rotating_async yields a logger on the asynchronous
  dispatch path and kind rotating one on the synchronous path, whatever the
  logger's name. \<^verbatim>\<open>Logger::New\<close> tests the kind where it decides whether to
  build a rotating logger, but the log name where it picks the factory. Evaluated:
  kind rotating_async with the name app builds a synchronous logger, whose record
  goes straight into the file and not onto a queue; kind rotating with the name
  rotating_async builds an asynchronous logger, whose record waits on the queue
  while the file stays empty.
\<close>

theorem kind_rotating_async_is_synchronous:
  "fst (New init_state True
     [JSString ''rotating_async'', JSString ''app'', JSString ''/tmp/app.log'',
      JSNumber 1024, JSNumber 3]) = Inr (JSObject 0) \<and>
   logger_field async_kind_state 0 = Some 0 \<and>
   made_by (loggers async_kind_state 0) = synchronous_factory \<and>
   queue (loggers (snd (Critical msg_only async_kind_state 0 [JSString ''down''])) 0) = [] \<and>
   disk (snd (Critical msg_only async_kind_state 0 [JSString ''down''])) ''/tmp/app.log'' 0
     = Some ''down'' \<and>
   fst (New init_state True
     [JSString ''rotating'', JSString ''rotating_async'', JSString ''/tmp/app.log'',
      JSNumber 1024, JSNumber 3]) = Inr (JSObject 0) \<and>
   logger_field async_name_state 0 = Some 0 \<and>
   made_by (loggers async_name_state 0) = async_factory \<and>
   queue (loggers (snd (Critical msg_only async_name_state 0 [JSString ''down''])) 0)
     = [(critical, ''down'')] \<and>
   disk (snd (Critical msg_only async_name_state 0 [JSString ''down''])) ''/tmp/app.log'' 0
     = Some []"
  by (simp add: async_kind_state_eval async_name_state_eval Critical_def emit_def log_def
        level_def new_logger_def to_sink_def enqueue_def msg_only_def sink_it_def write_file_def
        level_defs)

subsection \<open>C2: levels that setLevel rejects\<close>

text \<open>
  Claim C2 says that setLevel fails with the invalid-level error for every handle
  and every integer outside the range from trace up to, but excluding, off. The
  method accepts off itself (the test is against \<^verbatim>\<open>n_levels\<close>), and on a
  wrapper whose logger has been dropped it does not look at the number at all: off
  is stored as the level of a live logger, and 99 is accepted by a dropped one.
\<close>

theorem SetLevel_off_counterexample:
  "\<not> (trace \<le> off \<and> off < off) \<and>
   level app_state 0 = info \<and>
   fst (SetLevel app_state 0 [JSNumber off]) = Inr (JSObject 0) \<and>
   level (snd (SetLevel app_state 0 [JSNumber off])) 0 = off \<and>
   \<not> (trace \<le> 99 \<and> 99 < off) \<and>
   SetLevel (snd (Drop app_state 0 [])) 0 [JSNumber 99] =
     (Inr (JSObject 0), snd (Drop app_state 0 []))"
  by (simp add: SetLevel_def Drop_def app_state_eval level_set_level spdlog_drop_def level_defs)

text \<open>
  Claim C2 as amended: on a wrapper that still holds its logger, every number
  below trace or at least \<^verbatim>\<open>n_levels\<close> (that is, above off) makes setLevel
  throw the invalid-level error, and the state, with it the level of the logger,
  is the one before the call.
\<close>

theorem SetLevel_out_of_range:
  assumes "logger_field s this \<noteq> None" and "arg args 0 = JSNumber n"
    and "n < trace \<or> n_levels \<le> n"
  shows "SetLevel s this args = (Inl (JSError ''Invalid level''), s)"
  using assms by (auto simp: SetLevel_def)

theorem SetLevel_out_of_range_witness:
  "logger_field app_state 0 \<noteq> None \<and> arg [JSNumber 7] 0 = JSNumber 7 \<and>
   ((7::int) < trace \<or> n_levels \<le> 7) \<and>
   SetLevel app_state 0 [JSNumber 7] = (Inl (JSError ''Invalid level''), app_state)"
  using SetLevel_out_of_range [of app_state 0 "[JSNumber 7]" 7]
  by (simp add: app_state_eval level_defs)

subsection \<open>C3: creating a logger under a registered name\<close>

text \<open>
  Claim C3 says that, for every kind, a second creation under the same name returns
  a handle to the logger registered by the first. Only the rotating kinds look the
  name up before they construct. A console logger is constructed without a lookup,
  and the registry refuses the second registration of its name: the second call
  throws and returns no handle.
\<close>

theorem console_same_name_counterexample:
  "fst (New init_state True [JSString ''app'']) = Inr (JSObject 0) \<and>
   New app_state True [JSString ''app''] =
     (Inl (JSError ''logger with name app already exists''), app_state)"
proof -
  have "New app_state True [JSString ''app''] =
     (Inl (JSError ''logger with name app already exists''), app_state)"
    using construct_console_registered [of "''app''" app_state "[]"]
    by (simp add: app_state_eval)
  then show ?thesis
    by (simp add: app_state_eval)
qed

text \<open>
  Claim C3 as amended: for the kinds rotating and rotating_async, two creations
  with the same log name (the kinds, file names and limits may differ) return two
  distinct handles that hold the same registered logger. The second call
  constructs no logger and opens no file, and a valid level set through the first
  handle is what the second handle reads.
\<close>

theorem rotating_same_name_same_logger:
  assumes "kind1 = ''rotating'' \<or> kind1 = ''rotating_async''"
    and "kind2 = ''rotating'' \<or> kind2 = ''rotating_async''"
    and "New s True
           [JSString kind1, JSString logName, JSString file1, JSNumber size1, JSNumber files1]
         = (r1, s1)"
    and "New s1 True
           [JSString kind2, JSString logName, JSString file2, JSNumber size2, JSNumber files2]
         = (r2, s2)"
  shows "\<exists>h1 h2 p. r1 = Inr (JSObject h1) \<and> r2 = Inr (JSObject h2) \<and> h1 \<noteq> h2 \<and>
           logger_field s2 h1 = Some p \<and> logger_field s2 h2 = Some p \<and>
           spdlog_get logName s1 = Some p \<and> spdlog_get logName s2 = Some p \<and>
           loggers s2 = loggers s1 \<and> next_logger s2 = next_logger s1 \<and>
           registry s2 = registry s1 \<and> disk s2 = disk s1 \<and>
           (\<forall>L. trace \<le> L \<and> L < n_levels \<longrightarrow>
              fst (SetLevel s2 h1 [JSNumber L]) = Inr (JSObject h1) \<and>
              fst (GetLevel (snd (SetLevel s2 h1 [JSNumber L])) h2 []) = Inr (JSNumber L))"
proof -
  note first = construct_rotating_registered [OF assms(1) assms(3)]
  from first(4) obtain p where p: "registry s1 logName = Some p"
    by blast
  have second: "(r2, s2) =
         (Inr (JSObject (next_wrapper s1)),
          s1\<lparr>logger_field := (logger_field s1)(next_wrapper s1 := Some p),
            next_wrapper := Suc (next_wrapper s1)\<rparr>)"
    using construct_rotating_reuse [OF assms(2) p] assms(4) by simp
  have h1: "logger_field s2 (next_wrapper s) = Some p"
    using second first(2,3) p by simp
  have h2: "logger_field s2 (next_wrapper s1) = Some p"
    using second by simp
  have same: "loggers s2 = loggers s1" "next_logger s2 = next_logger s1"
    "registry s2 = registry s1" "disk s2 = disk s1"
    using second by simp_all
  have lv: "\<forall>L. trace \<le> L \<and> L < n_levels \<longrightarrow>
              fst (SetLevel s2 (next_wrapper s) [JSNumber L]) = Inr (JSObject (next_wrapper s)) \<and>
              fst (GetLevel (snd (SetLevel s2 (next_wrapper s) [JSNumber L])) (next_wrapper s1) [])
                = Inr (JSNumber L)"
    using h1 h2 by (auto simp: SetLevel_def GetLevel_def set_level_def level_def)
  have ne: "next_wrapper s \<noteq> next_wrapper s1"
    using first(2) by simp
  have r2: "r2 = Inr (JSObject (next_wrapper s1))"
    using second by simp
  have reg: "spdlog_get logName s1 = Some p" "spdlog_get logName s2 = Some p"
    using p same(3) by (simp_all add: spdlog_get_def)
  show ?thesis
    by (intro exI [of _ "next_wrapper s"] exI [of _ "next_wrapper s1"] exI [of _ p])
       (simp add: first(1) r2 ne h1 h2 reg same lv)
qed

theorem rotating_same_name_same_logger_witness:
  "(''rotating'' = ''rotating'' \<or> ''rotating'' = ''rotating_async'') \<and>
   (''rotating_async'' = ''rotating'' \<or> ''rotating_async'' = ''rotating_async'') \<and>
   fst (New init_state True
       [JSString ''rotating'', JSString ''app'', JSString ''/tmp/app.log'',
        JSNumber 1024, JSNumber 3]) = Inr (JSObject 0) \<and>
   fst (New rotating_state True
       [JSString ''rotating_async'', JSString ''app'', JSString ''/tmp/other.log'',
        JSNumber 10, JSNumber 1]) = Inr (JSObject 1) \<and>
   logger_field reused_state 0 = Some 0 \<and> logger_field reused_state 1 = Some 0 \<and>
   next_logger reused_state = next_logger rotating_state \<and>
   disk reused_state = disk rotating_state \<and>
   trace \<le> err \<and> err < n_levels \<and>
   fst (GetLevel (snd (SetLevel reused_state 0 [JSNumber err])) 1 []) = Inr (JSNumber err)"
proof -
  have k1: "''rotating'' = ''rotating'' \<or> ''rotating'' = ''rotating_async''"
    by simp
  have k2: "''rotating_async'' = ''rotating'' \<or> ''rotating_async'' = ''rotating_async''"
    by simp
  have c1: "New init_state True
       [JSString ''rotating'', JSString ''app'', JSString ''/tmp/app.log'',
        JSNumber 1024, JSNumber 3] = (Inr (JSObject 0), rotating_state)"
    using rotating_state_eval(1) by (simp add: rotating_state_def prod_eq_iff)
  have c2: "New rotating_state True
       [JSString ''rotating_async'', JSString ''app'', JSString ''/tmp/other.log'',
        JSNumber 10, JSNumber 1] = (Inr (JSObject 1), reused_state)"
    using reused_state_eval(1) by (simp add: reused_state_def prod_eq_iff)
  from rotating_same_name_same_logger [OF k1 k2 c1 c2]
  obtain h1 h2 where h: "Inr (JSObject 0) = (Inr (JSObject h1) :: error + js_value)"
      "Inr (JSObject 1) = (Inr (JSObject h2) :: error + js_value)"
      "\<forall>L. trace \<le> L \<and> L < n_levels \<longrightarrow>
          fst (GetLevel (snd (SetLevel reused_state h1 [JSNumber L])) h2 []) = Inr (JSNumber L)"
    by blast
  have lv: "trace \<le> err \<and> err < n_levels"
    by (simp add: level_defs)
  from h have "fst (GetLevel (snd (SetLevel reused_state 0 [JSNumber err])) 1 []) = Inr (JSNumber err)"
    using lv by simp
  then show ?thesis
    using c1 c2 lv by (simp add: reused_state_eval rotating_state_eval)
qed

subsection \<open>C4: setLevel, then getLevel\<close>

text \<open>
  Claim C4: on a wrapper that holds its logger, setLevel with a valid level L
  returns the handle, and getLevel then returns exactly L.
\<close>

theorem SetLevel_GetLevel:
  assumes "logger_field s this \<noteq> None" and "trace \<le> L" and "L < n_levels"
  shows "fst (SetLevel s this [JSNumber L]) = Inr (JSObject this) \<and>
         fst (GetLevel (snd (SetLevel s this [JSNumber L])) this args) = Inr (JSNumber L)"
  using assms
  by (auto simp: SetLevel_def GetLevel_def set_level_def level_def)

theorem SetLevel_GetLevel_witness:
  "logger_field app_state 0 \<noteq> None \<and> trace \<le> warn \<and> warn < n_levels \<and>
   fst (SetLevel app_state 0 [JSNumber warn]) = Inr (JSObject 0) \<and>
   fst (GetLevel (snd (SetLevel app_state 0 [JSNumber warn])) 0 []) = Inr (JSNumber warn)"
  using SetLevel_GetLevel [of app_state 0 warn "[]"]
  by (simp add: app_state_eval level_defs)

subsection \<open>C5: rotation\<close>

text \<open>
  Claim C5 says that a rotating sink with the limits S and N starts every write
  with a file of at most S bytes and never has more than N files. A record longer
  than S is written whole after the rotation, so the next write starts above the
  limit: with S = 8 the record "hello world" leaves 11 bytes, at the sink and
  through the info method of a logger created with these limits. With N = 0 the
  base file exists all the same.
\<close>

theorem oversized_record_counterexample:
  "max_size (fst small_sink) = 8 \<and>
   current_size (fst (sink_it ''hello world'' small_sink)) = 11 \<and>
   \<not> current_size (fst (sink_it ''hello world'' small_sink)) \<le> max_size (fst small_sink) \<and>
   sink_of (loggers (snd (Info msg_only tiny_state 0 [JSString ''hello world''])) 0) =
     rotating_sink \<lparr>base_filename = ''/tmp/app.log'', max_size = 8, max_files = 2,
       current_size = 11\<rparr> \<and>
   sink_of (loggers no_files_state 0) =
     rotating_sink \<lparr>base_filename = ''/tmp/app.log'', max_size = 8, max_files = 0,
       current_size = 0\<rparr> \<and>
   disk no_files_state ''/tmp/app.log'' 0 = Some []"
proof -
  have sink: "max_size (fst small_sink) = 8 \<and>
      current_size (fst (sink_it ''hello world'' small_sink)) = 11"
    by (simp add: small_sink_def open_sink_def sink_it_def write_file_def rotate_files_def)
  have logger: "sink_of (loggers (snd (Info msg_only tiny_state 0 [JSString ''hello world''])) 0) =
     rotating_sink \<lparr>base_filename = ''/tmp/app.log'', max_size = 8, max_files = 2,
       current_size = 11\<rparr>"
    by (simp add: Info_def emit_def tiny_state_eval log_def level_def new_logger_def to_sink_def
        msg_only_def sink_it_def write_file_def rotate_files_def level_defs)
  from sink logger show ?thesis
    by (simp add: no_files_state_eval)
qed

text \<open>
  Claim C5 as amended, for a sink with the limits S = \<open>max_size\<close> and
  N = \<open>max_files\<close>, N at least 1, that starts with at most S bytes and with no
  file at an index from N on. After any sequence of records of at most S bytes
  each, the next write (of a record of any length) starts with at most S bytes.
  If it would exceed S, the sink rotates once and then writes: index 0 holds the
  new record alone, and every file that existed at an index below N - 1 has moved
  one index up. Otherwise the record is appended and no other file changes.
  Before and after the write no file exists at an index from N on: at most N
  files exist.
\<close>

theorem rotating_sink_writes:
  assumes "1 \<le> max_files sk0" and "current_size sk0 \<le> max_size sk0"
    and "\<forall>i\<ge>max_files sk0. fs0 i = None"
    and "\<forall>t\<in>set lines. length t \<le> max_size sk0"
    and "sink_all lines (sk0, fs0) = (sk, fs)"
    and "sink_it line (sk, fs) = (sk', fs')"
  shows "max_size sk = max_size sk0 \<and> max_files sk = max_files sk0 \<and>
         current_size sk \<le> max_size sk0 \<and>
         (max_size sk0 < current_size sk + length line \<longrightarrow>
            (sk', fs') = write_file line (rotate_files (sk, fs)) \<and>
            fs' 0 = Some line \<and> current_size sk' = length line \<and>
            (\<forall>i. 0 < i \<and> i < max_files sk0 \<and> fs (i - 1) \<noteq> None \<longrightarrow> fs' i = fs (i - 1))) \<and>
         (current_size sk + length line \<le> max_size sk0 \<longrightarrow>
            (sk', fs') = write_file line (sk, fs) \<and> (\<forall>i>0. fs' i = fs i)) \<and>
         (\<forall>i\<ge>max_files sk0. fs i = None \<and> fs' i = None) \<and>
         card {i. fs i \<noteq> None} \<le> max_files sk0 \<and>
         card {i. fs' i \<noteq> None} \<le> max_files sk0"
proof -
  have inv: "max_size sk = max_size sk0" "max_files sk = max_files sk0"
    "current_size sk \<le> max_size sk0" "\<forall>i\<ge>max_files sk0. fs i = None"
    using sink_all_invariant [OF assms(1-4)] assms(5) by simp_all
  have e: "sk' = fst (sink_it line (sk, fs))" "fs' = snd (sink_it line (sk, fs))"
    using assms(6) by simp_all
  have rt: "max_size sk0 < current_size sk + length line \<longrightarrow>
            (sk', fs') = write_file line (rotate_files (sk, fs)) \<and>
            fs' 0 = Some line \<and> current_size sk' = length line \<and>
            (\<forall>i. 0 < i \<and> i < max_files sk0 \<and> fs (i - 1) \<noteq> None \<longrightarrow> fs' i = fs (i - 1))"
    unfolding e using inv(1,2) sink_it_rotating [where sk = sk and line = line and fs = fs]
    by (metis prod.collapse)
  have app: "current_size sk + length line \<le> max_size sk0 \<longrightarrow>
            (sk', fs') = write_file line (sk, fs) \<and> (\<forall>i>0. fs' i = fs i)"
    unfolding e using inv(1) sink_it_appending [where sk = sk and line = line and fs = fs]
    by (metis prod.collapse)
  have rg': "\<forall>i\<ge>max_files sk0. fs' i = None"
    using sink_it_range [where sk = sk and line = line and fs = fs] assms(1,6) inv(2,4) by simp
  have c: "card {i. fs i \<noteq> None} \<le> max_files sk0"
    using inv(4) by (rule card_files)
  have c': "card {i. fs' i \<noteq> None} \<le> max_files sk0"
    using rg' by (rule card_files)
  from inv rt app rg' c c' show ?thesis by blast
qed

theorem rotating_sink_writes_witness:
  "1 \<le> max_files (fst small_sink) \<and>
   current_size (fst small_sink) \<le> max_size (fst small_sink) \<and>
   snd small_sink = (\<lambda>_. None)(0 := Some []) \<and>
   length ''abcde'' \<le> max_size (fst small_sink) \<and>
   max_size (fst small_sink) <
     current_size (fst (sink_all [''abcde''] small_sink)) + length ''fghij'' \<and>
   snd (sink_all [''abcde''] small_sink) 0 = Some ''abcde'' \<and>
   snd (sink_it ''fghij'' (sink_all [''abcde''] small_sink)) 0 = Some ''fghij'' \<and>
   snd (sink_it ''fghij'' (sink_all [''abcde''] small_sink)) 1 = Some ''abcde'' \<and>
   current_size (fst (sink_it ''fghij'' (sink_all [''abcde''] small_sink))) = 5 \<and>
   card {i. snd (sink_it ''fghij'' (sink_all [''abcde''] small_sink)) i \<noteq> None} \<le> 2"
proof -
  have h1: "1 \<le> max_files (fst small_sink)"
    and h2: "current_size (fst small_sink) \<le> max_size (fst small_sink)"
    and h3: "\<forall>i\<ge>max_files (fst small_sink). snd small_sink i = None"
    and h4: "\<forall>t\<in>set [''abcde'']. length t \<le> max_size (fst small_sink)"
    by (simp_all add: small_sink_eval)
  have h5: "sink_all [''abcde''] (fst small_sink, snd small_sink) =
              (fst (sink_all [''abcde''] small_sink), snd (sink_all [''abcde''] small_sink))"
    by simp
  have h6: "sink_it ''fghij''
              (fst (sink_all [''abcde''] small_sink), snd (sink_all [''abcde''] small_sink)) =
              (fst (sink_it ''fghij'' (sink_all [''abcde''] small_sink)),
               snd (sink_it ''fghij'' (sink_all [''abcde''] small_sink)))"
    by simp
  note t = rotating_sink_writes [OF h1 h2 h3 h4 h5 h6]
  have big: "max_size (fst small_sink) <
     current_size (fst (sink_all [''abcde''] small_sink)) + length ''fghij''"
    by (simp add: small_sink_eval first_write_eval)
  from t big have r: "snd (sink_it ''fghij'' (sink_all [''abcde''] small_sink)) 0 = Some ''fghij''"
    "current_size (fst (sink_it ''fghij'' (sink_all [''abcde''] small_sink))) = length ''fghij''"
    "\<forall>i. 0 < i \<and> i < max_files (fst small_sink) \<and>
         snd (sink_all [''abcde''] small_sink) (i - 1) \<noteq> None \<longrightarrow>
         snd (sink_it ''fghij'' (sink_all [''abcde''] small_sink)) i =
         snd (sink_all [''abcde''] small_sink) (i - 1)"
    "card {i. snd (sink_it ''fghij'' (sink_all [''abcde''] small_sink)) i \<noteq> None}
       \<le> max_files (fst small_sink)"
    by blast+
  have one: "snd (sink_it ''fghij'' (sink_all [''abcde''] small_sink)) 1 = Some ''abcde''"
    using r(3) [rule_format, of 1] by (simp add: small_sink_eval first_write_eval)
  show ?thesis
    using h1 h2 big r(1,2,4) one
    by (simp add: first_write_eval small_sink_eval)
qed

subsection \<open>C6: the argument of the emit methods\<close>

text \<open>
  Claim C6: each of critical, error, warn, info, debug and trace throws when its
  first argument is not a string and leaves the state as it was (nothing is
  logged); with a string it returns the handle it was called on.
\<close>

theorem emit_argument_check:
  assumes "m \<in> {Critical, Error, Warn, Info, Debug, Trace}"
  shows "(\<not> IsString (arg args 0) \<longrightarrow>
            m fmt s this args = (Inl (JSError ''Provide a message to log''), s)) \<and>
         (IsString (arg args 0) \<longrightarrow> fst (m fmt s this args) = Inr (JSObject this))"
  using assms by (auto simp: emit_defs emit_not_string emit_string)

theorem emit_argument_check_witness:
  "Warn \<in> {Critical, Error, Warn, Info, Debug, Trace} \<and>
   \<not> IsString (arg [JSNumber 3] 0) \<and>
   Warn msg_only app_state 0 [JSNumber 3] =
     (Inl (JSError ''Provide a message to log''), app_state) \<and>
   IsString (arg [JSString ''disk full''] 0) \<and>
   fst (Warn msg_only app_state 0 [JSString ''disk full'']) = Inr (JSObject 0)"
  using emit_argument_check [of Warn "[JSNumber 3]" msg_only app_state 0]
    emit_argument_check [of Warn "[JSString ''disk full'']" msg_only app_state 0]
  by simp

subsection \<open>C7: drop\<close>

text \<open>
  Claim C7: drop returns the handle and never throws; afterwards the registry has
  no entry under the name of the logger the handle held, and the handle holds no
  logger. A second drop returns the handle again and changes nothing, and so does
  the destructor after a drop. The destructor of a handle that was not dropped
  removes the entry as well; it has no way to fail.
\<close>

theorem Drop_idempotent:
  "fst (Drop s this args) = Inr (JSObject this) \<and>
   (\<forall>p. logger_field s this = Some p \<longrightarrow>
      spdlog_get (logger_name (loggers s p)) (snd (Drop s this args)) = None) \<and>
   logger_field (snd (Drop s this args)) this = None \<and>
   Drop (snd (Drop s this args)) this args' = (Inr (JSObject this), snd (Drop s this args)) \<and>
   destroy (snd (Drop s this args)) this = snd (Drop s this args) \<and>
   (\<forall>p. logger_field s this = Some p \<longrightarrow>
      spdlog_get (logger_name (loggers s p)) (destroy s this) = None)"
  by (auto simp: Drop_def destroy_def spdlog_drop_def spdlog_get_def split: option.splits)

theorem Drop_idempotent_witness:
  "logger_field app_state 0 = Some 0 \<and> spdlog_get ''app'' app_state = Some 0 \<and>
   fst (Drop app_state 0 []) = Inr (JSObject 0) \<and>
   spdlog_get ''app'' (snd (Drop app_state 0 [])) = None \<and>
   Drop (snd (Drop app_state 0 [])) 0 [] = (Inr (JSObject 0), snd (Drop app_state 0 [])) \<and>
   spdlog_get ''app'' (destroy app_state 0) = None"
  using Drop_idempotent [of app_state 0 "[]" "[]"]
  by (simp add: app_state_eval spdlog_get_def)

subsection \<open>C8: the process-wide level and flush level\<close>

text \<open>
  Claim C8: the process-wide setLevel and setFlushOn throw the invalid-level error
  for every number below trace or from \<^verbatim>\<open>n_levels\<close> on and leave the state as
  it was; for every number from trace to off they return and set the default
  level, respectively the flush level, of the process and nothing of the other.
\<close>

theorem global_level_validation:
  "(n < trace \<or> n_levels \<le> n \<longrightarrow>
      setLevel s [JSNumber n] = (Inl (JSError ''Invalid level''), s) \<and>
      setFlushOn s [JSNumber n] = (Inl (JSError ''Invalid level''), s)) \<and>
   (trace \<le> n \<and> n < n_levels \<longrightarrow>
      fst (setLevel s [JSNumber n]) = Inr JSUndefined \<and>
      global_level (snd (setLevel s [JSNumber n])) = n \<and>
      global_flush_level (snd (setLevel s [JSNumber n])) = global_flush_level s \<and>
      fst (setFlushOn s [JSNumber n]) = Inr JSUndefined \<and>
      global_flush_level (snd (setFlushOn s [JSNumber n])) = n \<and>
      global_level (snd (setFlushOn s [JSNumber n])) = global_level s)"
  by (auto simp: setLevel_def setFlushOn_def spdlog_set_level_def spdlog_flush_on_def)

theorem global_level_validation_witness:
  "((7::int) < trace \<or> n_levels \<le> 7) \<and>
   setLevel init_state [JSNumber 7] = (Inl (JSError ''Invalid level''), init_state) \<and>
   setFlushOn init_state [JSNumber 7] = (Inl (JSError ''Invalid level''), init_state) \<and>
   trace \<le> err \<and> err < n_levels \<and>
   global_level (snd (setLevel init_state [JSNumber err])) = err \<and>
   global_flush_level (snd (setFlushOn init_state [JSNumber err])) = err"
  using global_level_validation [of 7 init_state] global_level_validation [of err init_state]
  by (simp add: level_defs)

subsection \<open>C9: methods of a dropped handle\<close>

text \<open>
  Claim C9: in the state a drop leaves, the six emit methods and setPattern with a
  string, setLevel with a number (of any value), flush and clearFormatters all
  return the handle and leave the state exactly as it is: nothing is logged and
  no error is thrown.
\<close>

theorem dropped_handle_methods:
  assumes "s' = snd (Drop s this args0)"
  shows "(m \<in> {Critical, Error, Warn, Info, Debug, Trace} \<and> IsString (arg args 0) \<longrightarrow>
            m fmt s' this args = (Inr (JSObject this), s')) \<and>
         Flush fmt s' this args = (Inr (JSObject this), s') \<and>
         (IsString (arg args 0) \<longrightarrow> SetPattern s' this args = (Inr (JSObject this), s')) \<and>
         ClearFormatters s' this args = (Inr (JSObject this), s') \<and>
         (IsNumber (arg args 0) \<longrightarrow> SetLevel s' this args = (Inr (JSObject this), s'))"
proof -
  have d: "logger_field s' this = None"
    using assms by (simp add: Drop_clears)
  have e: "m \<in> {Critical, Error, Warn, Info, Debug, Trace} \<and> IsString (arg args 0) \<longrightarrow>
            m fmt s' this args = (Inr (JSObject this), s')"
    using d by (auto simp: emit_defs emit_dropped)
  have f: "Flush fmt s' this args = (Inr (JSObject this), s')"
    using d by (simp add: Flush_def)
  have p: "IsString (arg args 0) \<longrightarrow> SetPattern s' this args = (Inr (JSObject this), s')"
    using d by (cases "arg args 0") (simp_all add: SetPattern_def)
  have c: "ClearFormatters s' this args = (Inr (JSObject this), s')"
    using d by (simp add: ClearFormatters_def)
  have l: "IsNumber (arg args 0) \<longrightarrow> SetLevel s' this args = (Inr (JSObject this), s')"
    using d by (cases "arg args 0") (simp_all add: SetLevel_def)
  from e f p c l show ?thesis by blast
qed

theorem dropped_handle_methods_witness:
  "Info \<in> {Critical, Error, Warn, Info, Debug, Trace} \<and>
   IsString (arg [JSString ''late''] 0) \<and> IsNumber (arg [JSNumber 99] 0) \<and>
   Info msg_only (snd (Drop app_state 0 [])) 0 [JSString ''late''] =
     (Inr (JSObject 0), snd (Drop app_state 0 [])) \<and>
   Flush msg_only (snd (Drop app_state 0 [])) 0 [] =
     (Inr (JSObject 0), snd (Drop app_state 0 [])) \<and>
   SetPattern (snd (Drop app_state 0 [])) 0 [JSString ''late''] =
     (Inr (JSObject 0), snd (Drop app_state 0 [])) \<and>
   ClearFormatters (snd (Drop app_state 0 [])) 0 [] =
     (Inr (JSObject 0), snd (Drop app_state 0 [])) \<and>
   SetLevel (snd (Drop app_state 0 [])) 0 [JSNumber 99] =
     (Inr (JSObject 0), snd (Drop app_state 0 []))"
  using dropped_handle_methods
          [of "snd (Drop app_state 0 [])" app_state 0 "[]" Info "[JSString ''late'']" msg_only]
        dropped_handle_methods
          [of "snd (Drop app_state 0 [])" app_state 0 "[]" Info "[JSNumber 99]" msg_only]
        dropped_handle_methods
          [of "snd (Drop app_state 0 [])" app_state 0 "[]" Info "[]" msg_only]
  by simp

subsection \<open>C10: getLevel on a dropped and on a live handle\<close>

text \<open>
  Claim C10: getLevel on a handle without a logger, in particular after a drop,
  sets no return value (the caller sees undefined) and throws nothing; on a handle
  that holds a logger it returns that logger's current level as a number. The
  state is unchanged either way.
\<close>

theorem GetLevel_dropped_or_live:
  "GetLevel (snd (Drop s this args0)) this args = (Inr JSUndefined, snd (Drop s this args0)) \<and>
   (logger_field s this = None \<longrightarrow> GetLevel s this args = (Inr JSUndefined, s)) \<and>
   (\<forall>p. logger_field s this = Some p \<longrightarrow>
      GetLevel s this args = (Inr (JSNumber (level s p)), s))"
  by (simp add: GetLevel_def Drop_clears)

theorem GetLevel_dropped_or_live_witness:
  "logger_field app_state 0 = Some 0 \<and>
   GetLevel app_state 0 [] = (Inr (JSNumber info), app_state) \<and>
   logger_field (snd (Drop app_state 0 [])) 0 = None \<and>
   GetLevel (snd (Drop app_state 0 [])) 0 [] = (Inr JSUndefined, snd (Drop app_state 0 []))"
  using GetLevel_dropped_or_live [of app_state 0 "[]" "[]"]
        GetLevel_dropped_or_live [of "snd (Drop app_state 0 [])" 0 "[]" "[]"]
  by (simp add: app_state_eval Drop_clears)

end
